theory Spec2Isabelle
  imports Main "HOL-Library.Sublist"
begin

section \<open>The chat widget of \<^verbatim>\<open>src/WebSocketChat.js\<close>\<close>

text \<open>
  The component is a React function component. Its mutable state is
  \<^item> three React state variables \<^verbatim>\<open>senderId\<close>, \<^verbatim>\<open>receiverId\<close>, \<^verbatim>\<open>msg\<close> and the \<^verbatim>\<open>log\<close>;
  \<^item> three refs: \<^verbatim>\<open>ws\<close>, \<^verbatim>\<open>lastSender\<close>, \<^verbatim>\<open>typingTimeout\<close>;
  \<^item> the browser objects it creates: WebSocket objects and pending timers.
  A function defined during a render (\<^verbatim>\<open>connectWS\<close>, \<^verbatim>\<open>sendMsg\<close>, \<^verbatim>\<open>notifyTyping\<close>) reads the
  state variables of that render, so it takes them as an explicit environment; refs and
  browser objects are read from the store at the time of the call.
\<close>

subsection \<open>JavaScript values read by the message handler\<close>

text \<open>
  \<open>json\<close> is a result of \<^verbatim>\<open>JSON.parse\<close>; a \<open>jsval\<close> is such a value or \<^verbatim>\<open>undefined\<close>
  (\<open>None\<close>), which is what reading an absent property gives. Numbers are carried as
  integers: the handler only tests a number for truthiness.
\<close>

datatype json =
    JNull
  | JBool bool
  | JNum int
  | JStr string
  | JArr "json list"
  | JObj "(string \<times> json) list"

type_synonym jsval = "json option"

datatype error = SyntaxError | TypeError | InvalidStateError

text \<open>JavaScript truthiness, as \<^verbatim>\<open>&&\<close>, \<^verbatim>\<open>!\<close> and \<^verbatim>\<open>if\<close> test it.\<close>

fun truthy_json :: "json \<Rightarrow> bool" where
  "truthy_json JNull = False"
| "truthy_json (JBool b) = b"
| "truthy_json (JNum n) = (n \<noteq> 0)"
| "truthy_json (JStr s) = (s \<noteq> [])"
| "truthy_json (JArr vs) = True"
| "truthy_json (JObj kvs) = True"

definition truthy :: "jsval \<Rightarrow> bool" where
  "truthy v = (case v of None \<Rightarrow> False | Some j \<Rightarrow> truthy_json j)"

text \<open>
  Property read \<^verbatim>\<open>obj.k\<close> for the names the handler reads (\<^verbatim>\<open>typing\<close>, \<^verbatim>\<open>sender_id\<close>,
  \<^verbatim>\<open>msg\<close>): on \<^verbatim>\<open>null\<close> it throws a TypeError, on an object it is the own property or
  \<^verbatim>\<open>undefined\<close>, on every other value it is \<^verbatim>\<open>undefined\<close>.
\<close>

fun get_prop :: "string \<Rightarrow> json \<Rightarrow> error + jsval" where
  "get_prop k JNull = Inl TypeError"
| "get_prop k (JObj kvs) = Inr (map_of kvs k)"
| "get_prop k v = Inr None"

subsection \<open>The connection target\<close>

record window =
  protocol :: string
  host :: string
  hostname :: string

definition DEPLOYED_WS_BASE_URL :: string where
  "DEPLOYED_WS_BASE_URL = ''wss://student-managment-api-ilmg.onrender.com/ws-demo/ws/chat/''"

definition LOCAL_WS_BASE_URL :: "window \<Rightarrow> string" where
  "LOCAL_WS_BASE_URL w =
     (if protocol w = ''https:'' then ''wss://'' else ''ws://'') @ host w @ ''/ws-demo/ws/chat/''"

definition WS_BASE_URL :: "window \<Rightarrow> string" where
  "WS_BASE_URL w =
     (if hostname w = ''student-managment-api-ilmg.onrender.com''
      then DEPLOYED_WS_BASE_URL else LOCAL_WS_BASE_URL w)"

subsection \<open>State\<close>

text \<open>The state variables a render closes over.\<close>

record env =
  senderId :: string
  receiverId :: string
  msg :: string

text \<open>
  A WebSocket object: its target, its \<^verbatim>\<open>readyState\<close> (0 connecting, 1 open, 2 closing,
  3 closed) and the \<^verbatim>\<open>senderId\<close> its \<^verbatim>\<open>onmessage\<close> handler closed over when \<^verbatim>\<open>connectWS\<close>
  installed it.
\<close>

record socket =
  url :: string
  readyState :: nat
  closure_senderId :: string

text \<open>
  The items of the log: a plain string, the element \<^verbatim>\<open><i key={k}>{v} is typing...</i>\<close>,
  the element \<^verbatim>\<open><b key={k}>{label}:</b>\<close>, and the string \<^verbatim>\<open>" " + v\<close> (the conversion of
  \<open>v\<close> to a string is left to the renderer).
\<close>

datatype log_item =
    LStr string
  | LTyping nat jsval
  | LLabel nat jsval
  | LSpace jsval

datatype callback = SendMsgCb env | TypingCb env

record timer =
  timer_id :: nat
  due :: nat
  callback :: callback

text \<open>
  The store. \<open>sockets\<close> holds every WebSocket object created so far, \<open>ws_current\<close> is
  \<^verbatim>\<open>ws.current\<close> as an index into it. \<open>now\<close> is the clock in milliseconds. The last three
  fields only record what happened: the frames handed to an open socket (time, socket,
  payload before \<^verbatim>\<open>JSON.stringify\<close>), the timer callbacks that ran (time, callback), and the
  exceptions that left a callback.
\<close>

record state =
  cur :: env
  log :: "log_item list"
  sockets :: "socket list"
  ws_current :: "nat option"
  lastSender :: string
  typingTimeout :: "nat option"
  timers :: "timer list"
  next_timer :: nat
  now :: nat
  sent :: "(nat \<times> nat \<times> json) list"
  fired :: "(nat \<times> callback) list"
  uncaught :: "error list"

datatype result = Returned state | Thrown error state

definition init :: state where
  "init = \<lparr>cur = \<lparr>senderId = [], receiverId = [], msg = []\<rparr>, log = [], sockets = [],
            ws_current = None, lastSender = [], typingTimeout = None, timers = [],
            next_timer = 0, now = 0, sent = [], fired = [], uncaught = []\<rparr>"

subsection \<open>Browser objects\<close>

text \<open>
  What the component uses of the browser. \<^verbatim>\<open>new WebSocket(url)\<close> is taken to return a
  connecting socket for every target; the network opens it, delivers frames on it and
  closes it through the events of the event loop below. Rendering the log is not modelled.
\<close>

definition socket_at :: "state \<Rightarrow> nat \<Rightarrow> socket option" where
  "socket_at s i = (if i < length (sockets s) then Some (sockets s ! i) else None)"

text \<open>\<^verbatim>\<open>ws.current && ws.current.readyState === 1\<close>\<close>

definition ws_is_open :: "state \<Rightarrow> bool" where
  "ws_is_open s =
     (case ws_current s of None \<Rightarrow> False
      | Some i \<Rightarrow> (case socket_at s i of None \<Rightarrow> False | Some k \<Rightarrow> readyState k = 1))"

text \<open>\<^verbatim>\<open>close()\<close>: a connecting or open socket starts closing; otherwise nothing happens.\<close>

definition ws_close :: "nat \<Rightarrow> state \<Rightarrow> state" where
  "ws_close i s =
     (case socket_at s i of None \<Rightarrow> s
      | Some k \<Rightarrow> if readyState k < 2
                  then s\<lparr>sockets := (sockets s)[i := k\<lparr>readyState := 2\<rparr>]\<rparr> else s)"

text \<open>
  \<^verbatim>\<open>ws.current.send(payload)\<close>: a TypeError on \<^verbatim>\<open>null\<close>, an InvalidStateError on a connecting
  socket, a frame on an open one, silently nothing on a closing or closed one.
\<close>

definition ws_send :: "json \<Rightarrow> state \<Rightarrow> result" where
  "ws_send p s =
     (case ws_current s of None \<Rightarrow> Thrown TypeError s
      | Some i \<Rightarrow>
         (case socket_at s i of None \<Rightarrow> Thrown TypeError s
          | Some k \<Rightarrow>
             if readyState k = 0 then Thrown InvalidStateError s
             else if readyState k = 1 then Returned (s\<lparr>sent := sent s @ [(now s, i, p)]\<rparr>)
             else Returned s))"

definition setTimeout :: "callback \<Rightarrow> nat \<Rightarrow> state \<Rightarrow> nat \<times> state" where
  "setTimeout cb d s =
     (next_timer s,
      s\<lparr>timers := timers s @ [\<lparr>timer_id = next_timer s, due = now s + d, callback = cb\<rparr>],
        next_timer := next_timer s + 1\<rparr>)"

definition clearTimeout :: "nat option \<Rightarrow> state \<Rightarrow> state" where
  "clearTimeout h s =
     (case h of None \<Rightarrow> s
      | Some i \<Rightarrow> s\<lparr>timers := filter (\<lambda>t. timer_id t \<noteq> i) (timers s)\<rparr>)"

definition setLog :: "(log_item list \<Rightarrow> log_item list) \<Rightarrow> state \<Rightarrow> state" where
  "setLog f s = s\<lparr>log := f (log s)\<rparr>"

subsection \<open>The component's functions\<close>

definition connectWS :: "window \<Rightarrow> env \<Rightarrow> state \<Rightarrow> state" where
  "connectWS w e s =
     (if senderId e = [] then s
      else if ws_is_open s \<and> lastSender s = senderId e then s
      else
        let s1 = (case ws_current s of None \<Rightarrow> s | Some i \<Rightarrow> ws_close i s)
        in s1\<lparr>sockets := sockets s1 @
                 [\<lparr>url = WS_BASE_URL w @ senderId e, readyState = 0,
                   closure_senderId = senderId e\<rparr>],
               ws_current := Some (length (sockets s1)),
               lastSender := senderId e\<rparr>)"

definition onopen :: "state \<Rightarrow> state" where
  "onopen s = setLog (\<lambda>l. l @ [LStr ''WebSocket connected'']) s"

definition onclose :: "state \<Rightarrow> state" where
  "onclose s = setLog (\<lambda>l. l @ [LStr ''WebSocket closed'']) s"

text \<open>
  The body of the \<^verbatim>\<open>try\<close> block of \<^verbatim>\<open>onmessage\<close>. \<open>parse\<close> is \<^verbatim>\<open>JSON.parse\<close>, with \<open>None\<close>
  where it throws; \<open>sid\<close> is the \<^verbatim>\<open>senderId\<close> the handler closed over. The first property
  read, \<^verbatim>\<open>obj.typing\<close>, is the one that can throw; the three reads are done in the order in
  which the source first makes them.
\<close>

definition onmessage_try :: "(string \<Rightarrow> json option) \<Rightarrow> string \<Rightarrow> string \<Rightarrow> state \<Rightarrow> error + state" where
  "onmessage_try parse sid d s =
     (case parse d of None \<Rightarrow> Inl SyntaxError
      | Some obj \<Rightarrow>
         (case get_prop ''typing'' obj of Inl x \<Rightarrow> Inl x
          | Inr ty \<Rightarrow>
             (case get_prop ''sender_id'' obj of Inl x \<Rightarrow> Inl x
              | Inr sender \<Rightarrow>
                 if truthy ty \<and> truthy sender
                 then Inr (setLog (\<lambda>l. l @ [LTyping (length l) sender]) s)
                 else
                   (case get_prop ''msg'' obj of Inl x \<Rightarrow> Inl x
                    | Inr m \<Rightarrow>
                       if truthy m \<and> truthy sender
                       then
                         let label = (if sender = Some (JStr sid) then Some (JStr ''You'') else sender)
                         in Inr (setLog (\<lambda>l. l @ [LLabel (length l) label, LSpace m]) s)
                       else Inr s))))"

definition onmessage :: "(string \<Rightarrow> json option) \<Rightarrow> string \<Rightarrow> string \<Rightarrow> state \<Rightarrow> result" where
  "onmessage parse sid d s =
     (case onmessage_try parse sid d s of
        Inl x \<Rightarrow> Returned (setLog (\<lambda>l. l @ [LStr d]) s)
      | Inr s' \<Rightarrow> Returned s')"

definition message_payload :: "env \<Rightarrow> json" where
  "message_payload e =
     JObj [(''sender_id'', JStr (senderId e)), (''receiver_id'', JStr (receiverId e)),
           (''msg'', JStr (msg e)), (''typing'', JBool False)]"

definition typing_payload :: "env \<Rightarrow> json" where
  "typing_payload e =
     JObj [(''sender_id'', JStr (senderId e)), (''receiver_id'', JStr (receiverId e)),
           (''typing'', JBool True)]"

definition setMsg :: "string \<Rightarrow> state \<Rightarrow> state" where
  "setMsg v s = s\<lparr>cur := (cur s)\<lparr>msg := v\<rparr>\<rparr>"

definition sendMsg :: "window \<Rightarrow> env \<Rightarrow> state \<Rightarrow> result" where
  "sendMsg w e s =
     (if \<not> ws_is_open s
      then Returned (snd (setTimeout (SendMsgCb e) 300 (connectWS w e s)))
      else
        (case ws_send (message_payload e) s of
           Thrown x s' \<Rightarrow> Thrown x s'
         | Returned s' \<Rightarrow> Returned (setMsg [] s')))"

text \<open>The function \<^verbatim>\<open>notifyTyping\<close> hands to \<^verbatim>\<open>setTimeout\<close>.\<close>

definition typing_timeout_fn :: "env \<Rightarrow> state \<Rightarrow> result" where
  "typing_timeout_fn e s =
     (if \<not> ws_is_open s \<or> senderId e = [] \<or> receiverId e = [] then Returned s
      else ws_send (typing_payload e) s)"

definition notifyTyping :: "env \<Rightarrow> state \<Rightarrow> state" where
  "notifyTyping e s =
     (let s1 = clearTimeout (typingTimeout s) s;
          (h, s2) = setTimeout (TypingCb e) 100 s1
      in s2\<lparr>typingTimeout := Some h\<rparr>)"

text \<open>
  The effect on \<^verbatim>\<open>[senderId]\<close>: when the state variable changes, the cleanup of the
  previous run closes \<^verbatim>\<open>ws.current\<close> and the effect of the new render calls \<^verbatim>\<open>connectWS\<close>.
\<close>

definition effect_cleanup :: "state \<Rightarrow> state" where
  "effect_cleanup s = (case ws_current s of None \<Rightarrow> s | Some i \<Rightarrow> ws_close i s)"

definition setSenderId :: "window \<Rightarrow> string \<Rightarrow> state \<Rightarrow> state" where
  "setSenderId w v s =
     (if v = senderId (cur s) then s
      else
        let s1 = s\<lparr>cur := (cur s)\<lparr>senderId := v\<rparr>\<rparr>
        in connectWS w (cur s1) (effect_cleanup s1))"

definition setReceiverId :: "string \<Rightarrow> state \<Rightarrow> state" where
  "setReceiverId v s = s\<lparr>cur := (cur s)\<lparr>receiverId := v\<rparr>\<rparr>"

subsection \<open>The event loop\<close>

text \<open>An exception that leaves a callback is reported and the loop goes on.\<close>

definition settle :: "result \<Rightarrow> state" where
  "settle r = (case r of Returned s \<Rightarrow> s | Thrown x s \<Rightarrow> s\<lparr>uncaught := uncaught s @ [x]\<rparr>)"

definition run_callback :: "window \<Rightarrow> callback \<Rightarrow> state \<Rightarrow> result" where
  "run_callback w cb s =
     (case cb of SendMsgCb e \<Rightarrow> sendMsg w e s | TypingCb e \<Rightarrow> typing_timeout_fn e s)"

definition fire :: "window \<Rightarrow> timer \<Rightarrow> state \<Rightarrow> state" where
  "fire w t s =
     settle (run_callback w (callback t)
       (s\<lparr>timers := filter (\<lambda>u. timer_id u \<noteq> timer_id t) (timers s),
          fired := fired s @ [(now s, callback t)]\<rparr>))"

text \<open>The timers of a list of handles run in order, each if it is still pending.\<close>

fun run_due :: "window \<Rightarrow> nat list \<Rightarrow> state \<Rightarrow> state" where
  "run_due w [] s = s"
| "run_due w (i # is) s =
     run_due w is
       (case find (\<lambda>t. timer_id t = i) (timers s) of None \<Rightarrow> s | Some t \<Rightarrow> fire w t s)"

text \<open>
  One millisecond passes, and the timers that are due run, in the order they were set.
  So a timer runs in the first millisecond at which it is due, and never earlier.
\<close>

definition tick :: "window \<Rightarrow> state \<Rightarrow> state" where
  "tick w s =
     (let s1 = s\<lparr>now := now s + 1\<rparr>
      in run_due w (map timer_id (filter (\<lambda>t. due t \<le> now s1) (timers s1))) s1)"


text \<open>
  What can happen to the component: the user edits one of the three inputs or clicks
  Send, the network opens a socket, delivers a frame on it or closes it, or time passes.
  The message input runs \<^verbatim>\<open>notifyTyping\<close> (\<^verbatim>\<open>onInput\<close>) and \<^verbatim>\<open>setMsg\<close> (\<^verbatim>\<open>onChange\<close>).
\<close>

datatype event =
    InputSender string
  | InputReceiver string
  | InputMsg string
  | ClickSend
  | WsOpen nat
  | WsMessage nat string
  | WsClose nat
  | Tick

definition set_ready :: "nat \<Rightarrow> nat \<Rightarrow> state \<Rightarrow> state" where
  "set_ready i r s = s\<lparr>sockets := (sockets s)[i := (sockets s ! i)\<lparr>readyState := r\<rparr>]\<rparr>"

fun step :: "window \<Rightarrow> (string \<Rightarrow> json option) \<Rightarrow> event \<Rightarrow> state \<Rightarrow> state" where
  "step w parse (InputSender v) s = setSenderId w v s"
| "step w parse (InputReceiver v) s = setReceiverId v s"
| "step w parse (InputMsg v) s = setMsg v (notifyTyping (cur s) s)"
| "step w parse ClickSend s = settle (sendMsg w (cur s) s)"
| "step w parse (WsOpen i) s =
     (case socket_at s i of None \<Rightarrow> s
      | Some k \<Rightarrow> if readyState k = 0 then onopen (set_ready i 1 s) else s)"
| "step w parse (WsMessage i d) s =
     (case socket_at s i of None \<Rightarrow> s
      | Some k \<Rightarrow> if readyState k = 1 then settle (onmessage parse (closure_senderId k) d s) else s)"
| "step w parse (WsClose i) s =
     (case socket_at s i of None \<Rightarrow> s
      | Some k \<Rightarrow> if readyState k \<noteq> 3 then onclose (set_ready i 3 s) else s)"
| "step w parse Tick s = tick w s"

fun exec :: "window \<Rightarrow> (string \<Rightarrow> json option) \<Rightarrow> event list \<Rightarrow> state \<Rightarrow> state" where
  "exec w parse [] s = s"
| "exec w parse (ev # evs) s = exec w parse evs (step w parse ev s)"

subsection \<open>Notions the properties are stated with\<close>

text \<open>
  The two tests of the message handler on a parsed payload: \<^verbatim>\<open>obj.typing && obj.sender_id\<close>
  and \<^verbatim>\<open>obj.msg && obj.sender_id\<close>.
\<close>

definition read_prop :: "string \<Rightarrow> json \<Rightarrow> jsval" where
  "read_prop k v = (case get_prop k v of Inl x \<Rightarrow> None | Inr y \<Rightarrow> y)"

definition typing_event :: "json \<Rightarrow> bool" where
  "typing_event v = (truthy (read_prop ''typing'' v) \<and> truthy (read_prop ''sender_id'' v))"

definition message_event :: "json \<Rightarrow> bool" where
  "message_event v = (truthy (read_prop ''msg'' v) \<and> truthy (read_prop ''sender_id'' v))"

text \<open>The sockets of the store that are open.\<close>

definition open_channels :: "state \<Rightarrow> nat list" where
  "open_channels s = filter (\<lambda>i. readyState (sockets s ! i) = 1) [0..<length (sockets s)]"






text \<open>The values of \<^verbatim>\<open>JSON.parse\<close> on the payloads of the examples below.\<close>

definition JSON_parse_sample :: "string \<Rightarrow> json option" where
  "JSON_parse_sample d =
     (if d = ''null'' then Some JNull
      else if d = ''{}'' then Some (JObj [])
      else if d = ''5'' then Some (JNum 5)
      else None)"


text \<open>
  Every socket other than \<^verbatim>\<open>ws.current\<close> is closing or closed, and \<^verbatim>\<open>ws.current\<close> refers
  to a socket of the store.
\<close>

definition tidy :: "state \<Rightarrow> bool" where
  "tidy s =
     ((\<forall>i. ws_current s = Some i \<longrightarrow> i < length (sockets s)) \<and>
      (\<forall>j<length (sockets s). Some j \<noteq> ws_current s \<longrightarrow> 2 \<le> readyState (sockets s ! j)))"


























text \<open>A page served locally, a user and three states of the component, for the examples.\<close>

definition local_window :: window where
  "local_window = \<lparr>protocol = ''http:'', host = ''localhost:8000'', hostname = ''localhost''\<rparr>"

definition alice :: env where
  "alice = \<lparr>senderId = ''alice'', receiverId = ''bob'', msg = []\<rparr>"

definition alice_connecting :: state where
  "alice_connecting =
     exec local_window JSON_parse_sample [InputSender ''alice'', InputReceiver ''bob''] init"

definition alice_open :: state where
  "alice_open = step local_window JSON_parse_sample (WsOpen 0) alice_connecting"


section \<open>The message router of the server\<close>

text \<open>
  Modelled from the spec: the server's message router is not among the source files. The
  event on the wire has the four fields of the specification's schema (section 6).
\<close>

record wire_event =
  sender_id :: string
  receiver_id :: string
  msg_text :: "string option"
  typing_flag :: "bool option"

text \<open>
  Modelled from the spec: the router's state (section 4.3, section 5) is the registry from
  identities to open channels, the only shared mutable state. Channels are numbered; the
  other two fields record what the router did: the events it forwarded, each with the
  channel it went to, and the channels it closed.
\<close>

record router =
  registry :: "string \<rightharpoonup> nat"
  delivered :: "(nat \<times> wire_event) list"
  closed_by_router :: "nat list"

text \<open>
  Modelled from the spec: on a new connection, with the identity of its address path, a
  channel already registered for that identity is closed and the new one is registered
  (section 4.3).
\<close>

definition router_connect :: "string \<Rightarrow> nat \<Rightarrow> router \<Rightarrow> router" where
  "router_connect ident c r =
     (case registry r ident of
        None \<Rightarrow> r\<lparr>registry := (registry r)(ident \<mapsto> c)\<rparr>
      | Some old \<Rightarrow> r\<lparr>registry := (registry r)(ident \<mapsto> c),
                     closed_by_router := closed_by_router r @ [old]\<rparr>)"

text \<open>
  Modelled from the spec: on an inbound event, arriving on the channel \<open>src\<close>, the
  \<^verbatim>\<open>receiver_id\<close> is looked up in the registry; if found, the event is forwarded unmodified
  to that channel; if not found, it is discarded silently (section 4.3).
\<close>

definition router_event :: "nat \<Rightarrow> wire_event \<Rightarrow> router \<Rightarrow> router" where
  "router_event src ev r =
     (case registry r (receiver_id ev) of
        None \<Rightarrow> r
      | Some c \<Rightarrow> r\<lparr>delivered := delivered r @ [(c, ev)]\<rparr>)"

text \<open>
  Modelled from the spec: on the close of a channel, the registry entry of its identity is
  removed if it still refers to this channel (section 4.3).
\<close>

definition router_close :: "string \<Rightarrow> nat \<Rightarrow> router \<Rightarrow> router" where
  "router_close ident c r =
     (if registry r ident = Some c then r\<lparr>registry := (registry r)(ident := None)\<rparr> else r)"

text \<open>A router with one user connected, and an event for another, for the examples.\<close>

definition router_u1 :: router where
  "router_u1 =
     router_connect ''u1'' 0 \<lparr>registry = Map.empty, delivered = [], closed_by_router = []\<rparr>"

definition event_u1_u2 :: wire_event where
  "event_u1_u2 =
     \<lparr>sender_id = ''u1'', receiver_id = ''u2'', msg_text = Some ''hi'', typing_flag = Some False\<rparr>"

section \<open>Properties of the chat widget\<close>

subsection \<open>The example states\<close>

lemma alice_connecting_eq:
  "alice_connecting =
     \<lparr>cur = alice, log = [],
      sockets = [\<lparr>url = ''ws://localhost:8000/ws-demo/ws/chat/alice'', readyState = 0,
                  closure_senderId = ''alice''\<rparr>],
      ws_current = Some 0, lastSender = ''alice'', typingTimeout = None, timers = [],
      next_timer = 0, now = 0, sent = [], fired = [], uncaught = []\<rparr>"
  by (simp add: alice_connecting_def alice_def init_def setSenderId_def setReceiverId_def
      effect_cleanup_def connectWS_def ws_is_open_def WS_BASE_URL_def LOCAL_WS_BASE_URL_def
      local_window_def)

lemma alice_open_eq:
  "alice_open =
     \<lparr>cur = alice, log = [LStr ''WebSocket connected''],
      sockets = [\<lparr>url = ''ws://localhost:8000/ws-demo/ws/chat/alice'', readyState = 1,
                  closure_senderId = ''alice''\<rparr>],
      ws_current = Some 0, lastSender = ''alice'', typingTimeout = None, timers = [],
      next_timer = 0, now = 0, sent = [], fired = [], uncaught = []\<rparr>"
  by (simp add: alice_open_def alice_connecting_eq socket_at_def set_ready_def onopen_def
      setLog_def)


lemma alice_open_reachable:
  "alice_open =
     exec local_window JSON_parse_sample [InputSender ''alice'', InputReceiver ''bob'', WsOpen 0] init"
  by (simp add: alice_open_def alice_connecting_def)


subsection \<open>The log only grows\<close>

lemma log_ws_close: "log (ws_close i s) = log s"
  by (simp add: ws_close_def split: option.splits)

lemma log_connectWS: "log (connectWS w e s) = log s"
  by (simp add: connectWS_def Let_def log_ws_close split: option.splits)

lemma log_sendMsg: "log (settle (sendMsg w e s)) = log s"
  by (simp add: sendMsg_def settle_def setTimeout_def log_connectWS ws_send_def setMsg_def
      split: option.splits)

lemma log_typing_timeout_fn: "log (settle (typing_timeout_fn e s)) = log s"
  by (simp add: typing_timeout_fn_def settle_def ws_send_def split: option.splits)

lemma log_fire: "log (fire w t s) = log s"
  by (cases "callback t") (simp_all add: fire_def run_callback_def log_sendMsg log_typing_timeout_fn)

lemma log_run_due: "log (run_due w is s) = log s"
  by (induction "is" arbitrary: s) (simp_all add: log_fire split: option.splits)

lemma log_tick: "log (tick w s) = log s"
  by (simp add: tick_def Let_def log_run_due)

lemma log_notifyTyping: "log (notifyTyping e s) = log s"
  by (simp add: notifyTyping_def clearTimeout_def setTimeout_def Let_def split: option.splits)

lemma log_setSenderId: "log (setSenderId w v s) = log s"
  by (simp add: setSenderId_def Let_def log_connectWS effect_cleanup_def log_ws_close
      split: option.splits)

lemma log_onmessage: "prefix (log s) (log (settle (onmessage parse sid d s)))"
  by (auto simp: onmessage_def onmessage_try_def settle_def setLog_def Let_def
      split: option.splits sum.splits)

lemma log_step: "prefix (log s) (log (step w parse ev s))"
  by (cases ev)
     (simp_all add: log_setSenderId setReceiverId_def setMsg_def log_notifyTyping log_sendMsg
        log_tick log_onmessage onopen_def onclose_def setLog_def set_ready_def
        split: option.splits)

text \<open>
  C9: the log is append-only. Whatever happens to the component (an edit of an input, a
  click on Send, a socket opening, delivering a frame or closing, a timer running), the log
  before is a prefix of the log after, for one event and for every sequence of events.
\<close>

theorem log_append_only:
  "prefix (log s) (log (step w parse ev s)) \<and> prefix (log s) (log (exec w parse evs s))"
proof
  show "prefix (log s) (log (step w parse ev s))" by (rule log_step)
  show "prefix (log s) (log (exec w parse evs s))"
  proof (induction evs arbitrary: s)
    case Nil
    show ?case by simp
  next
    case (Cons x xs)
    have "prefix (log s) (log (step w parse x s))" by (rule log_step)
    also have "prefix (log (step w parse x s)) (log (exec w parse xs (step w parse x s)))"
      by (rule Cons.IH)
    finally show ?case by simp
  qed
qed

subsection \<open>At most one socket is not closing or closed\<close>

lemma tidy_init: "tidy init"
  by (simp add: tidy_def init_def)

lemma tidy_ws_close: "tidy s \<Longrightarrow> tidy (ws_close i s)"
  by (auto simp: tidy_def ws_close_def socket_at_def nth_list_update split: option.splits)

lemma ws_current_ws_close: "ws_current (ws_close i s) = ws_current s"
  by (simp add: ws_close_def split: option.splits)

lemma closed_ws_close: "i < length (sockets s) \<Longrightarrow> 2 \<le> readyState (sockets (ws_close i s) ! i)"
  by (auto simp: ws_close_def socket_at_def)

lemma tidy_connectWS:
  assumes "tidy s" shows "tidy (connectWS w e s)"
proof (cases "senderId e = [] \<or> (ws_is_open s \<and> lastSender s = senderId e)")
  case True
  then show ?thesis using assms by (auto simp: connectWS_def)
next
  case False
  show ?thesis
  proof (cases "ws_current s")
    case None
    then show ?thesis using assms False
      by (auto simp: connectWS_def tidy_def nth_append)
  next
    case (Some i)
    have t: "tidy (ws_close i s)" using assms by (rule tidy_ws_close)
    have i: "i < length (sockets s)" using assms Some by (simp add: tidy_def)
    have c: "2 \<le> readyState (sockets (ws_close i s) ! i)" using i by (rule closed_ws_close)
    have "\<forall>j<length (sockets (ws_close i s)). 2 \<le> readyState (sockets (ws_close i s) ! j)"
      using t c Some by (auto simp: tidy_def ws_current_ws_close)
    then show ?thesis using False Some
      by (auto simp: connectWS_def tidy_def nth_append Let_def)
  qed
qed

lemma tidy_fields:
  "sockets s' = sockets s \<Longrightarrow> ws_current s' = ws_current s \<Longrightarrow> tidy s' = tidy s"
  by (simp add: tidy_def)

lemma tidy_sendMsg: "tidy s \<Longrightarrow> tidy (settle (sendMsg w e s))"
proof (cases "ws_is_open s")
  case True
  assume "tidy s"
  moreover have "tidy (settle (sendMsg w e s)) = tidy s"
    using True by (intro tidy_fields)
      (simp_all add: sendMsg_def ws_send_def settle_def setMsg_def split: option.splits)
  ultimately show ?thesis by simp
next
  case False
  assume "tidy s"
  then have "tidy (connectWS w e s)" by (rule tidy_connectWS)
  moreover have "tidy (settle (sendMsg w e s)) = tidy (connectWS w e s)"
    using False by (intro tidy_fields) (simp_all add: sendMsg_def settle_def setTimeout_def)
  ultimately show ?thesis by simp
qed

lemma tidy_typing_timeout_fn: "tidy (settle (typing_timeout_fn e s)) = tidy s"
  by (rule tidy_fields)
     (simp_all add: typing_timeout_fn_def ws_send_def settle_def split: option.splits)

lemma tidy_fire: "tidy s \<Longrightarrow> tidy (fire w t s)"
proof -
  let ?s = "s\<lparr>timers := filter (\<lambda>u. timer_id u \<noteq> timer_id t) (timers s),
              fired := fired s @ [(now s, callback t)]\<rparr>"
  assume "tidy s"
  then have "tidy ?s" by (simp add: tidy_def)
  then show ?thesis
    by (cases "callback t")
       (simp_all add: fire_def run_callback_def tidy_sendMsg tidy_typing_timeout_fn)
qed

lemma tidy_run_due: "tidy s \<Longrightarrow> tidy (run_due w is s)"
  by (induction "is" arbitrary: s) (simp_all add: tidy_fire split: option.splits)

lemma tidy_tick: "tidy s \<Longrightarrow> tidy (tick w s)"
proof -
  assume "tidy s"
  then have "tidy (s\<lparr>now := now s + 1\<rparr>)" by (simp add: tidy_def)
  then show ?thesis by (simp add: tick_def Let_def tidy_run_due)
qed

lemma tidy_notifyTyping: "tidy (notifyTyping e s) = tidy s"
  by (rule tidy_fields)
     (simp_all add: notifyTyping_def clearTimeout_def setTimeout_def split: option.splits)

lemma tidy_setSenderId: "tidy s \<Longrightarrow> tidy (setSenderId w v s)"
proof -
  assume t: "tidy s"
  let ?s = "s\<lparr>cur := (cur s)\<lparr>senderId := v\<rparr>\<rparr>"
  have "tidy ?s" using t by (simp add: tidy_def)
  then have "tidy (effect_cleanup ?s)"
    by (simp add: effect_cleanup_def tidy_ws_close split: option.splits)
  then have "tidy (connectWS w (cur ?s) (effect_cleanup ?s))" by (rule tidy_connectWS)
  then show ?thesis using t by (simp add: setSenderId_def Let_def)
qed

lemma tidy_opened:
  assumes "tidy s" and "socket_at s i = Some k" and "readyState k = 0"
  shows "tidy (set_ready i (Suc 0) s)"
proof -
  have i: "i < length (sockets s)" "sockets s ! i = k"
    using assms(2) by (auto simp: socket_at_def split: if_splits)
  then have "ws_current s = Some i" using assms(1,3) by (auto simp: tidy_def)
  then show ?thesis using assms(1) i
    by (auto simp: tidy_def set_ready_def nth_list_update)
qed

lemma tidy_closed: "tidy s \<Longrightarrow> tidy (set_ready i 3 s)"
  by (cases "i < length (sockets s)") (auto simp: tidy_def set_ready_def nth_list_update)

lemma tidy_step: "tidy s \<Longrightarrow> tidy (step w parse ev s)"
proof (cases ev)
  case (WsMessage i d)
  assume "tidy s"
  moreover have "tidy (step w parse ev s) = tidy s"
    unfolding WsMessage
    by (rule tidy_fields)
       (auto simp: onmessage_def onmessage_try_def settle_def setLog_def Let_def
          split: option.splits sum.splits)
  ultimately show ?thesis by simp
next
  case (InputSender v)
  assume "tidy s" then show ?thesis by (simp add: InputSender tidy_setSenderId)
next
  case (InputReceiver v)
  assume "tidy s" then show ?thesis by (simp add: InputReceiver setReceiverId_def tidy_def)
next
  case (InputMsg v)
  assume "tidy s"
  then have "tidy (notifyTyping (cur s) s)" by (simp add: tidy_notifyTyping)
  then show ?thesis by (simp add: InputMsg setMsg_def tidy_def)
next
  case ClickSend
  assume "tidy s" then show ?thesis by (simp add: ClickSend tidy_sendMsg)
next
  case (WsOpen i)
  assume t: "tidy s"
  have "tidy (onopen z) = tidy z" for z by (simp add: onopen_def setLog_def tidy_def)
  then show ?thesis using t by (simp add: WsOpen tidy_opened split: option.splits)
next
  case (WsClose i)
  assume t: "tidy s"
  have "tidy (onclose z) = tidy z" for z by (simp add: onclose_def setLog_def tidy_def)
  then show ?thesis using t by (simp add: WsClose tidy_closed split: option.splits)
next
  case Tick
  assume "tidy s" then show ?thesis by (simp add: Tick tidy_tick)
qed

lemma tidy_exec: "tidy s \<Longrightarrow> tidy (exec w parse evs s)"
  by (induction evs arbitrary: s) (simp_all add: tidy_step)

lemma filter_upt_single:
  assumes "i < n" and "P i" and "\<forall>j<n. j \<noteq> i \<longrightarrow> \<not> P j"
  shows "filter P [0..<n] = [i]"
proof -
  have "[0..<n] = [0..<i] @ [i] @ [Suc i..<n]"
    using assms(1)
    by (metis append_Cons append_Nil le0 upt_add_eq_append upt_conv_Cons less_imp_add_positive)
  moreover have "filter P [0..<i] = []" using assms by (auto simp: filter_empty_conv)
  moreover have "filter P [Suc i..<n] = []" using assms by (auto simp: filter_empty_conv)
  ultimately show ?thesis using assms(2) by simp
qed

lemma tidy_open_channels:
  assumes "tidy s" and "ws_is_open s"
  shows "\<exists>i. ws_current s = Some i \<and> open_channels s = [i]"
proof -
  from assms(2) obtain i where i: "ws_current s = Some i" "i < length (sockets s)"
      "readyState (sockets s ! i) = 1"
    by (auto simp: ws_is_open_def socket_at_def split: option.splits if_splits)
  have "\<forall>j<length (sockets s). j \<noteq> i \<longrightarrow> readyState (sockets s ! j) \<noteq> 1"
    using assms(1) i by (fastforce simp: tidy_def)
  then have "open_channels s = [i]"
    unfolding open_channels_def using i by (intro filter_upt_single) auto
  then show ?thesis using i by simp
qed

subsection \<open>Connecting\<close>

text \<open>
  C3: connecting again under the identity of the open channel changes nothing. In every
  state the component can reach, if \<^verbatim>\<open>ws.current\<close> is open and was opened under the
  identity \<^verbatim>\<open>connectWS\<close> is called with, the call returns the state as it was (so the
  channel is neither closed nor opened again), and that channel is the one open socket.
\<close>

theorem connectWS_idempotent:
  assumes "s = exec w parse evs init" and "ws_is_open s" and "lastSender s = senderId e"
  shows "connectWS w e s = s \<and>
         (\<exists>i. ws_current s = Some i \<and> open_channels (connectWS w e s) = [i])"
proof -
  have "tidy s" unfolding assms(1) by (rule tidy_exec) (rule tidy_init)
  then have "\<exists>i. ws_current s = Some i \<and> open_channels s = [i]"
    using assms(2) by (rule tidy_open_channels)
  moreover have "connectWS w e s = s" using assms(2,3) by (simp add: connectWS_def)
  ultimately show ?thesis by simp
qed

theorem connectWS_idempotent_witness:
  "alice_open = exec local_window JSON_parse_sample
                  [InputSender ''alice'', InputReceiver ''bob'', WsOpen 0] init
   \<and> ws_is_open alice_open \<and> lastSender alice_open = senderId alice
   \<and> connectWS local_window alice alice_open = alice_open
   \<and> (\<exists>i. ws_current alice_open = Some i
          \<and> open_channels (connectWS local_window alice alice_open) = [i])"
proof -
  have 1: "alice_open = exec local_window JSON_parse_sample
             [InputSender ''alice'', InputReceiver ''bob'', WsOpen 0] init"
    by (rule alice_open_reachable)
  have 2: "ws_is_open alice_open"
    by (simp add: alice_open_eq ws_is_open_def socket_at_def)
  have 3: "lastSender alice_open = senderId alice"
    by (simp add: alice_open_eq alice_def)
  show ?thesis using 1 2 3 connectWS_idempotent [OF 1 2 3] by blast
qed





subsection \<open>Inbound frames\<close>

text \<open>
  C5: a payload that \<^verbatim>\<open>JSON.parse\<close> rejects is shown as text: the only effect of the
  message handler is to append the raw payload, as a plain string, to the log. And the
  handler returns normally on every payload, whatever it parses to.
\<close>

theorem onmessage_unparseable_shown_as_text:
  "(parse d = None \<longrightarrow> onmessage parse sid d s = Returned (s\<lparr>log := log s @ [LStr d]\<rparr>))
   \<and> (\<exists>s'. onmessage parse sid d s = Returned s')"
  by (simp add: onmessage_def onmessage_try_def setLog_def split: sum.splits)

theorem onmessage_unparseable_shown_as_text_witness:
  "JSON_parse_sample ''hello'' = None
   \<and> onmessage JSON_parse_sample ''alice'' ''hello'' alice_open =
       Returned (alice_open\<lparr>log := log alice_open @ [LStr ''hello'']\<rparr>)"
  using onmessage_unparseable_shown_as_text [of JSON_parse_sample "''hello''" "''alice''" alice_open]
  by (simp add: JSON_parse_sample_def)

text \<open>
  C10, as stated, fails: the payload \<^verbatim>\<open>null\<close> parses, is neither a typing event nor a
  message event, and is appended to the log. Reading \<^verbatim>\<open>obj.typing\<close> on \<^verbatim>\<open>null\<close> throws inside
  the \<^verbatim>\<open>try\<close> block, and the \<^verbatim>\<open>catch\<close> block logs the raw payload.
\<close>

theorem onmessage_null_is_logged:
  "JSON_parse_sample ''null'' = Some JNull
   \<and> \<not> typing_event JNull \<and> \<not> message_event JNull
   \<and> onmessage JSON_parse_sample ''alice'' ''null'' alice_open =
       Returned (alice_open\<lparr>log := log alice_open @ [LStr ''null'']\<rparr>)
   \<and> log alice_open @ [LStr ''null''] \<noteq> log alice_open"
  by (simp add: JSON_parse_sample_def typing_event_def message_event_def read_prop_def truthy_def
      onmessage_def onmessage_try_def setLog_def)

text \<open>
  C10, amended: a payload that parses to a value other than \<^verbatim>\<open>null\<close> and passes neither of
  the handler's two tests is ignored. The handler returns normally and leaves the state,
  and so the log, as it was.
\<close>

theorem onmessage_unrecognised_ignored:
  assumes "parse d = Some v" and "v \<noteq> JNull" and "\<not> typing_event v" and "\<not> message_event v"
  shows "onmessage parse sid d s = Returned s"
  using assms
  by (cases v)
     (auto simp: onmessage_def onmessage_try_def typing_event_def message_event_def read_prop_def)

theorem onmessage_unrecognised_ignored_witness:
  "JSON_parse_sample ''{}'' = Some (JObj []) \<and> JObj [] \<noteq> JNull
   \<and> \<not> typing_event (JObj []) \<and> \<not> message_event (JObj [])
   \<and> onmessage JSON_parse_sample ''alice'' ''{}'' alice_open = Returned alice_open"
  using onmessage_unrecognised_ignored [of JSON_parse_sample "''{}''" "JObj []" "''alice''" alice_open]
  by (simp add: JSON_parse_sample_def typing_event_def message_event_def read_prop_def truthy_def)

subsection \<open>The typing timer\<close>



subsection \<open>Frames on the wire\<close>


















subsection \<open>Time and timers\<close>








subsection \<open>Pending timers\<close>















































subsection \<open>Runs of events\<close>






















subsection \<open>Sending without a channel\<close>
























subsection \<open>The typing debounce\<close>


















section \<open>Properties of the message router\<close>

text \<open>
  C8: an event whose \<^verbatim>\<open>receiver_id\<close> has no channel in the registry is discarded. The
  router's state is unchanged: nothing is delivered to any channel (so nothing, and no
  error, reaches the sender's channel), and nothing is kept for later: when the receiver
  connects afterwards, the deliveries are still those from before the event.
\<close>

theorem router_discards_unroutable:
  assumes "registry r (receiver_id ev) = None"
  shows "router_event src ev r = r
         \<and> delivered (router_connect (receiver_id ev) c (router_event src ev r)) = delivered r"
  using assms by (simp add: router_event_def router_connect_def)

theorem router_discards_unroutable_witness:
  "registry router_u1 (receiver_id event_u1_u2) = None
   \<and> router_event 0 event_u1_u2 router_u1 = router_u1
   \<and> delivered (router_connect (receiver_id event_u1_u2) 1 (router_event 0 event_u1_u2 router_u1))
       = []"
proof -
  have h: "registry router_u1 (receiver_id event_u1_u2) = None"
    by (simp add: router_u1_def event_u1_u2_def router_connect_def)
  have d: "delivered router_u1 = []"
    by (simp add: router_u1_def router_connect_def)
  show ?thesis
    using h d router_discards_unroutable [OF h, of 0 1] by auto
qed

end
